theory Spec2Isabelle
  imports Main
begin

section \<open>Promises and failures\<close>

text \<open>
  A promise is modelled by its settled outcome: \<open>Inl e\<close> is a rejection with the value
  \<open>e\<close>, \<open>Inr v\<close> a resolution with \<open>v\<close>. \<open>Error m\<close> is the object \<open>new Error(m)\<close> the
  client itself throws; \<open>Foreign d\<close> is any other value a collaborator (the transport,
  the JSON parser, the base completion strategy) rejects with.
\<close>

datatype failure = Error string | Foreign string

type_synonym 'a promise = "failure + 'a"

definition thenP :: "'a promise \<Rightarrow> ('a \<Rightarrow> 'b promise) \<Rightarrow> 'b promise" where
  "thenP p f = (case p of Inl e \<Rightarrow> Inl e | Inr v \<Rightarrow> f v)"

section \<open>The HTTP boundary\<close>

definition badRequest :: int where "badRequest = 400"
definition unprocessableEntity :: int where "unprocessableEntity = 422"
definition serviceUnavailable :: int where "serviceUnavailable = 503"

datatype api_status = StatusSuccess | StatusError

record 'a APIResponse =
  status :: api_status
  data :: "'a option"
  error :: "string option"
  warnings :: "string list option"

datatype httpMethod = POST | GET

type_synonym URLSearchParams = "(string \<times> string) list"
type_synonym Headers = "(string \<times> string) list"

text \<open>
  \<open>RequestInit\<close>: an absent \<open>method\<close> (the field \<open>requestMethod\<close>) is \<open>None\<close>; an absent body and the body \<open>null\<close> are
  both \<open>None\<close>, a \<open>URLSearchParams\<close> body is sent form-encoded.
\<close>

record RequestInit =
  requestMethod :: "httpMethod option"
  body :: "URLSearchParams option"
  headers :: Headers

text \<open>
  \<open>Response\<close>: \<open>json\<close> is the outcome of \<open>res.json()\<close>, typed as the client's type
  assertion \<open>APIResponse<T>\<close> takes it.
\<close>

record 'a Response =
  ok :: bool
  http_status :: int
  statusText :: string
  json :: "'a APIResponse promise"

type_synonym SeriesRecord = "(string \<times> string) list"

record MetricMetadata =
  metric_type :: string
  metric_help :: string

text \<open>
  \<open>FetchFn\<close> is one function in the source, used at the four payload types of
  \<open>fetchAPI<T>\<close>; a record field cannot be polymorphic, so the model carries its
  instance at each of them.
\<close>

record FetchFn =
  asStrings :: "string \<Rightarrow> RequestInit \<Rightarrow> string list Response promise"
  asSeries :: "string \<Rightarrow> RequestInit \<Rightarrow> SeriesRecord list Response promise"
  asMetadata :: "string \<Rightarrow> RequestInit \<Rightarrow> (string \<times> MetricMetadata list) list Response promise"
  asFlags :: "string \<Rightarrow> RequestInit \<Rightarrow> (string \<times> string) list Response promise"

record Matcher =
  matcher_type :: nat
  matcher_name :: string
  matcher_value :: string

text \<open>
  What the client takes from the platform and from the PromQL library: the clock read by
  \<open>new Date()\<close>, \<open>Date.toISOString\<close>, the string form of a \<open>URLSearchParams\<close>,
  \<open>String.replace\<close> with the pattern \<open>/:name/gi\<close>, the library's
  \<open>labelMatchersToString\<close>, and the global \<open>fetch\<close>.
\<close>

record platform =
  now :: int
  toISOString :: "int \<Rightarrow> string"
  paramsToString :: "URLSearchParams \<Rightarrow> string"
  replaceName :: "string \<Rightarrow> string \<Rightarrow> string"
  labelMatchersToString :: "string \<Rightarrow> Matcher list option \<Rightarrow> string option \<Rightarrow> string"
  fetch :: FetchFn

section \<open>CustomHTTPPrometheusClient\<close>

text \<open>
  The error handler is a callback with an effect on the world outside the client; \<open>'w\<close> is
  the state of that world, and a call of the handler is one application of it.
\<close>

record 'w PrometheusConfig =
  cfg_url :: "string option"
  cfg_httpErrorHandler :: "(failure \<Rightarrow> 'w \<Rightarrow> 'w) option"
  cfg_lookbackInterval :: "int option"
  cfg_fetchFn :: "FetchFn option"
  cfg_httpMethod :: "httpMethod option"
  cfg_apiPrefix :: "string option"

record 'w client =
  lookbackInterval :: int
  url :: string
  errorHandler :: "(failure \<Rightarrow> 'w \<Rightarrow> 'w) option"
  httpMethod :: httpMethod
  apiPrefix :: string
  fetchFn :: FetchFn
  requestHeaders :: Headers

definition constructor :: "platform \<Rightarrow> 'w PrometheusConfig \<Rightarrow> 'w client" where
  "constructor P config =
     \<lparr> lookbackInterval =
         (case cfg_lookbackInterval config of
            Some n \<Rightarrow> if n \<noteq> 0 then n else 60 * 60 * 1000 * 12
          | None \<Rightarrow> 60 * 60 * 1000 * 12),
       url = (case cfg_url config of Some u \<Rightarrow> u | None \<Rightarrow> ''''),
       errorHandler = cfg_httpErrorHandler config,
       httpMethod = (case cfg_httpMethod config of Some m \<Rightarrow> m | None \<Rightarrow> POST),
       apiPrefix =
         (case cfg_apiPrefix config of
            Some p \<Rightarrow> if p \<noteq> '''' then p else ''/api/v1''
          | None \<Rightarrow> ''/api/v1''),
       fetchFn = (case cfg_fetchFn config of Some f \<Rightarrow> f | None \<Rightarrow> fetch P),
       requestHeaders = [] \<rparr>"

definition missingErrorField :: string where
  \<open>missingErrorField = ''missing "error" field in response JSON''\<close>

definition missingDataField :: string where
  \<open>missingDataField = ''missing "data" field in response JSON''\<close>

text \<open>The three \<open>then\<close> callbacks of \<open>fetchAPI\<close>, in order, and \<open>fetchAPI\<close> itself.\<close>

definition checkStatus :: "'a Response \<Rightarrow> 'a Response promise" where
  "checkStatus res =
     (if \<not> ok res \<and> http_status res \<notin> set [badRequest, unprocessableEntity, serviceUnavailable]
      then Inl (Error (statusText res))
      else Inr res)"

definition unwrapEnvelope :: "'a APIResponse \<Rightarrow> 'a promise" where
  "unwrapEnvelope apiRes =
     (if status apiRes = StatusError
      then Inl (Error (case error apiRes of Some m \<Rightarrow> m | None \<Rightarrow> missingErrorField))
      else case data apiRes of
             None \<Rightarrow> Inl (Error missingDataField)
           | Some d \<Rightarrow> Inr d)"

definition fetchAPI ::
  "(FetchFn \<Rightarrow> string \<Rightarrow> RequestInit \<Rightarrow> 'a Response promise) \<Rightarrow> 'w client \<Rightarrow> string \<Rightarrow> RequestInit
     \<Rightarrow> 'a promise" where
  "fetchAPI inst c resource init =
     thenP (thenP (thenP (inst (fetchFn c) (url c @ resource) init) checkStatus) json)
       unwrapEnvelope"

record builtRequest =
  uri :: string
  reqBody :: "URLSearchParams option"

definition buildRequest :: "platform \<Rightarrow> 'w client \<Rightarrow> string \<Rightarrow> URLSearchParams \<Rightarrow> builtRequest" where
  "buildRequest P c endpoint params =
     (if httpMethod c = GET
      then \<lparr> uri = endpoint @ ''?'' @ paramsToString P params, reqBody = None \<rparr>
      else \<lparr> uri = endpoint, reqBody = Some params \<rparr>)"

definition labelsEndpoint :: "'w client \<Rightarrow> string" where
  "labelsEndpoint c = apiPrefix c @ ''/labels''"

definition labelValuesEndpoint :: "'w client \<Rightarrow> string" where
  "labelValuesEndpoint c = apiPrefix c @ ''/label/:name/values''"

definition seriesEndpoint :: "'w client \<Rightarrow> string" where
  "seriesEndpoint c = apiPrefix c @ ''/series''"

definition metricMetadataEndpoint :: "'w client \<Rightarrow> string" where
  "metricMetadataEndpoint c = apiPrefix c @ ''/metadata''"

definition flagsEndpoint :: "'w client \<Rightarrow> string" where
  "flagsEndpoint c = apiPrefix c @ ''/status/flags''"

text \<open>
  The \<open>catch\<close> callback every public operation attaches to \<open>fetchAPI\<close>: call the handler
  if one is configured, then resolve to the operation's default. The result pairs the
  world after the call with the outcome of the returned promise.
\<close>

definition catchError :: "'w client \<Rightarrow> 'a \<Rightarrow> 'a promise \<Rightarrow> 'w \<Rightarrow> 'w \<times> 'a promise" where
  "catchError c dflt p w =
     (case p of
        Inr v \<Rightarrow> (w, Inr v)
      | Inl e \<Rightarrow> ((case errorHandler c of Some h \<Rightarrow> h e w | None \<Rightarrow> w), Inr dflt))"

text \<open>
  The time window of a call, as the entries of
  \<open>new URLSearchParams({start: start.toISOString(), end: end.toISOString()})\<close>.
\<close>

definition window :: "platform \<Rightarrow> 'w client \<Rightarrow> URLSearchParams" where
  "window P c =
     (let end = now P; start = end - lookbackInterval c
      in [(''start'', toISOString P start), (''end'', toISOString P end)])"

text \<open>The resource and the \<open>RequestInit\<close> each parameterised operation hands to \<open>fetchAPI\<close>.\<close>

definition labelNamesRequest :: "platform \<Rightarrow> 'w client \<Rightarrow> string \<times> RequestInit" where
  "labelNamesRequest P c =
     (let request = buildRequest P c (labelsEndpoint c) (window P c)
      in (uri request,
          \<lparr> requestMethod = Some (httpMethod c), body = reqBody request, headers = requestHeaders c \<rparr>))"

definition labelValuesRequest :: "platform \<Rightarrow> 'w client \<Rightarrow> string \<Rightarrow> string \<times> RequestInit" where
  "labelValuesRequest P c labelName =
     (let params = window P c
      in (replaceName P (labelValuesEndpoint c) labelName @ ''?'' @ paramsToString P params,
          \<lparr> requestMethod = None, body = None, headers = requestHeaders c \<rparr>))"

definition seriesRequest ::
  "platform \<Rightarrow> 'w client \<Rightarrow> string \<Rightarrow> Matcher list option \<Rightarrow> string option \<Rightarrow> string \<times> RequestInit" where
  "seriesRequest P c metricName matchers labelName =
     (let request = buildRequest P c (seriesEndpoint c)
            (window P c @ [(''match[]'', labelMatchersToString P metricName matchers labelName)])
      in (uri request,
          \<lparr> requestMethod = Some (httpMethod c), body = reqBody request, headers = requestHeaders c \<rparr>))"

definition series ::
  "platform \<Rightarrow> 'w client \<Rightarrow> string \<Rightarrow> Matcher list option \<Rightarrow> string option \<Rightarrow> 'w
     \<Rightarrow> 'w \<times> SeriesRecord list promise" where
  "series P c metricName matchers labelName w =
     (case seriesRequest P c metricName matchers labelName of
        (resource, init) \<Rightarrow> catchError c [] (fetchAPI asSeries c resource init) w)"

text \<open>
  A JavaScript \<open>Set\<close> of strings keeps its members in insertion order; \<open>Array.from\<close> reads
  them in that order.
\<close>

definition set_add :: "string \<Rightarrow> string list \<Rightarrow> string list" where
  "set_add x s = (if x \<in> set s then s else s @ [x])"

text \<open>
  The loops of \<open>labelNames\<close>: over the entries of one series record, and over the records.
  With a metric name, the window \<open>labelNames\<close> computes for itself is not used: the request
  is the one \<open>series\<close> builds.
\<close>

fun namesOfEntries :: "(string \<times> string) list \<Rightarrow> string list \<Rightarrow> string list" where
  "namesOfEntries [] labelNames = labelNames"
| "namesOfEntries ((key, value) # entries) labelNames =
     (if key = ''__name__'' then namesOfEntries entries labelNames
      else namesOfEntries entries (set_add key labelNames))"

fun namesOfSeries :: "SeriesRecord list \<Rightarrow> string list \<Rightarrow> string list" where
  "namesOfSeries [] labelNames = labelNames"
| "namesOfSeries (labelSet # rest) labelNames =
     namesOfSeries rest (namesOfEntries labelSet labelNames)"

definition labelNames ::
  "platform \<Rightarrow> 'w client \<Rightarrow> string option \<Rightarrow> 'w \<Rightarrow> 'w \<times> string list promise" where
  "labelNames P c metricName w =
     (let direct =
        (case labelNamesRequest P c of
           (resource, init) \<Rightarrow> catchError c [] (fetchAPI asStrings c resource init) w)
      in case metricName of
           None \<Rightarrow> direct
         | Some name \<Rightarrow>
             if name = '''' then direct
             else case series P c name None None w of
                    (w', p) \<Rightarrow> (w', thenP p (\<lambda>series. Inr (namesOfSeries series []))))"

text \<open>The loops of \<open>labelValues\<close>.\<close>

fun valuesOfEntries :: "string \<Rightarrow> (string \<times> string) list \<Rightarrow> string list \<Rightarrow> string list" where
  "valuesOfEntries labelName [] labelValues = labelValues"
| "valuesOfEntries labelName ((key, value) # entries) labelValues =
     (if key = ''__name__'' then valuesOfEntries labelName entries labelValues
      else if key = labelName then valuesOfEntries labelName entries (set_add value labelValues)
      else valuesOfEntries labelName entries labelValues)"

fun valuesOfSeries :: "string \<Rightarrow> SeriesRecord list \<Rightarrow> string list \<Rightarrow> string list" where
  "valuesOfSeries labelName [] labelValues = labelValues"
| "valuesOfSeries labelName (labelSet # rest) labelValues =
     valuesOfSeries labelName rest (valuesOfEntries labelName labelSet labelValues)"

definition labelValues ::
  "platform \<Rightarrow> 'w client \<Rightarrow> string \<Rightarrow> string option \<Rightarrow> Matcher list option \<Rightarrow> 'w
     \<Rightarrow> 'w \<times> string list promise" where
  "labelValues P c labelName metricName matchers w =
     (let direct =
        (case labelValuesRequest P c labelName of
           (resource, init) \<Rightarrow> catchError c [] (fetchAPI asStrings c resource init) w)
      in case metricName of
           None \<Rightarrow> direct
         | Some name \<Rightarrow>
             if name = '''' then direct
             else case series P c name matchers (Some labelName) w of
                    (w', p) \<Rightarrow> (w', thenP p (\<lambda>series. Inr (valuesOfSeries labelName series []))))"

definition metricMetadata ::
  "'w client \<Rightarrow> 'w \<Rightarrow> 'w \<times> (string \<times> MetricMetadata list) list promise" where
  "metricMetadata c w =
     catchError c []
       (fetchAPI asMetadata c (metricMetadataEndpoint c)
          \<lparr> requestMethod = None, body = None, headers = requestHeaders c \<rparr>) w"

definition metricNames :: "platform \<Rightarrow> 'w client \<Rightarrow> 'w \<Rightarrow> 'w \<times> string list promise" where
  "metricNames P c w = labelValues P c ''__name__'' None None w"

definition flags :: "'w client \<Rightarrow> 'w \<Rightarrow> 'w \<times> (string \<times> string) list promise" where
  "flags c w =
     catchError c []
       (fetchAPI asFlags c (flagsEndpoint c)
          \<lparr> requestMethod = None, body = None, headers = requestHeaders c \<rparr>) w"

section \<open>HistoryCompleteStrategy\<close>

text \<open>
  A completion option, with the fields the strategy writes: \<open>applyText\<close> is the field
  \<open>apply\<close> (the text inserted), an unset or \<open>undefined\<close> field is \<open>None\<close>.
\<close>

record Completion =
  label :: string
  detail :: "string option"
  applyText :: "string option"
  info :: "string option"

text \<open>
  A completion result; \<open>fromPos\<close> and \<open>toPos\<close> are the fields \<open>from\<close> and \<open>to\<close>, and
  \<open>validFor\<close> is the set of strings its pattern accepts.
\<close>

record CompletionResult =
  fromPos :: int
  toPos :: "int option"
  options :: "Completion list"
  validFor :: "(string \<Rightarrow> bool) option"

text \<open>
  Completion results are objects: the strategy can hand back the very object the base
  strategy returned, or a new one. The store maps references to objects; \<open>nextRef\<close> is the
  next unused reference, and the references below it are the live objects.
\<close>

type_synonym ref = nat

record store =
  deref :: "ref \<Rightarrow> CompletionResult"
  nextRef :: ref

definition alloc :: "store \<Rightarrow> CompletionResult \<Rightarrow> store \<times> ref" where
  "alloc h v = (h\<lparr> deref := (deref h)(nextRef h := v), nextRef := Suc (nextRef h) \<rparr>, nextRef h)"

definition live :: "store \<Rightarrow> ref \<Rightarrow> bool" where
  "live h r = (r < nextRef h)"

record 's CompletionContext =
  state :: 's
  pos :: int

text \<open>
  The base strategy's \<open>promQL\<close>: it fails (throws or rejects), or yields \<open>null\<close> (\<open>None\<close>) or
  a reference to a completion result, in a store it may have extended.
\<close>

type_synonym 's CompleteStrategy =
  "'s CompletionContext \<Rightarrow> store \<Rightarrow> ((ref option) \<times> store) promise"

record 's HistoryCompleteStrategy =
  complete :: "'s CompleteStrategy"
  queryHistory :: "string list"

text \<open>The pattern \<open>/^[a-zA-Z0-9_:]+$/\<close>: a non-empty string of these characters only.\<close>

definition historyChar :: "char \<Rightarrow> bool" where
  "historyChar ch =
     (ch \<in> set ''abcdefghijklmnopqrstuvwxyz'' \<or> ch \<in> set ''ABCDEFGHIJKLMNOPQRSTUVWXYZ''
      \<or> ch \<in> set ''0123456789'' \<or> ch = CHR ''_'' \<or> ch = CHR '':'')"

definition historyValidFor :: "string \<Rightarrow> bool" where
  "historyValidFor s = (s \<noteq> [] \<and> list_all historyChar s)"

text \<open>The option built for one past query \<open>q\<close>.\<close>

definition historyOption :: "string \<Rightarrow> Completion" where
  "historyOption q =
     \<lparr> label = (if length q < 80 then q else take 76 q @ ''...''),
       detail = Some ''past query'',
       applyText = Some q,
       info = (if length q < 80 then None else Some q) \<rparr>"

text \<open>
  \<open>promQL\<close>. \<open>resolveFrom state pos\<close> is \<open>syntaxTree(state).resolve(pos, -1).from\<close>, the start
  of the syntax node at the cursor, taken from the editor library.
\<close>

definition promQL ::
  "('s \<Rightarrow> int \<Rightarrow> int) \<Rightarrow> 's HistoryCompleteStrategy \<Rightarrow> 's CompletionContext \<Rightarrow> store
     \<Rightarrow> ((ref option) \<times> store) promise" where
  "promQL resolveFrom this context h0 =
     thenP (complete this context h0) (\<lambda>(res, h).
       let treeFrom = resolveFrom (state context) (pos context);
           start = (case res of Some r \<Rightarrow> fromPos (deref h r) | None \<Rightarrow> treeFrom)
       in if start \<noteq> 0 then Inr (res, h)
          else
            let (h1, historyItems) =
                  alloc h \<lparr> fromPos = start, toPos = Some (pos context),
                            options = map historyOption (queryHistory this),
                            validFor = Some historyValidFor \<rparr>;
                h2 = (case res of
                        Some r \<Rightarrow>
                          h1\<lparr> deref := (deref h1)(historyItems :=
                                (deref h1 historyItems)\<lparr> options :=
                                   options (deref h1 historyItems) @ options (deref h1 r) \<rparr>) \<rparr>
                      | None \<Rightarrow> h1)
            in Inr (Some historyItems, h2))"

section \<open>Example inputs\<close>

text \<open>
  A concrete platform for the examples below: \<open>Date.toISOString\<close> for the years 0 to 9999,
  the \<open>application/x-www-form-urlencoded\<close> serialiser of \<open>URLSearchParams\<close>, and
  \<open>replace(/:name/gi, labelName)\<close> for a label name without \<open>$\<close>.
\<close>

fun digits :: "nat \<Rightarrow> int \<Rightarrow> string" where
  "digits 0 n = []"
| "digits (Suc k) n = digits k (n div 10) @ [''0123456789'' ! nat (n mod 10)]"

definition exampleToISOString :: "int \<Rightarrow> string" where
  "exampleToISOString t =
     (let ms = t mod 86400000;
          z = t div 86400000 + 719468;
          era = z div 146097;
          doe = z - era * 146097;
          yoe = (doe - doe div 1460 + doe div 36524 - doe div 146096) div 365;
          doy = doe - (365 * yoe + yoe div 4 - yoe div 100);
          mp = (5 * doy + 2) div 153;
          d = doy - (153 * mp + 2) div 5 + 1;
          m = (if mp < 10 then mp + 3 else mp - 9);
          y = yoe + era * 400 + (if m \<le> 2 then 1 else 0)
      in digits 4 y @ ''-'' @ digits 2 m @ ''-'' @ digits 2 d @ ''T''
         @ digits 2 (ms div 3600000) @ '':'' @ digits 2 (ms div 60000 mod 60) @ '':''
         @ digits 2 (ms div 1000 mod 60) @ ''.'' @ digits 3 (ms mod 1000) @ ''Z'')"

definition formEncode :: "string \<Rightarrow> string" where
  "formEncode s =
     concat (map (\<lambda>ch.
       if ch \<in> set ''abcdefghijklmnopqrstuvwxyzABCDEFGHIJKLMNOPQRSTUVWXYZ0123456789*-._'' then [ch]
       else if ch = CHR '' '' then ''+''
       else [CHR ''%'', ''0123456789ABCDEF'' ! (of_char ch div 16),
             ''0123456789ABCDEF'' ! (of_char ch mod 16)]) s)"

fun exampleParamsToString :: "URLSearchParams \<Rightarrow> string" where
  "exampleParamsToString [] = []"
| "exampleParamsToString [(k, v)] = formEncode k @ ''='' @ formEncode v"
| "exampleParamsToString ((k, v) # rest) =
     formEncode k @ ''='' @ formEncode v @ ''&'' @ exampleParamsToString rest"

fun exampleReplaceName :: "string \<Rightarrow> string \<Rightarrow> string" where
  "exampleReplaceName (c0 # c1 # c2 # c3 # c4 # rest) labelName =
     (if c0 = CHR '':'' \<and> c1 \<in> set ''nN'' \<and> c2 \<in> set ''aA'' \<and> c3 \<in> set ''mM'' \<and> c4 \<in> set ''eE''
      then labelName @ exampleReplaceName rest labelName
      else c0 # exampleReplaceName (c1 # c2 # c3 # c4 # rest) labelName)"
| "exampleReplaceName s labelName = s"

text \<open>A transport that settles every request the same way, at each payload type.\<close>

definition constantFetch ::
  "string list Response promise \<Rightarrow> SeriesRecord list Response promise
     \<Rightarrow> (string \<times> MetricMetadata list) list Response promise
     \<Rightarrow> (string \<times> string) list Response promise \<Rightarrow> FetchFn" where
  "constantFetch a b c d =
     \<lparr> asStrings = (\<lambda>input init. a), asSeries = (\<lambda>input init. b),
       asMetadata = (\<lambda>input init. c), asFlags = (\<lambda>input init. d) \<rparr>"

definition offline :: FetchFn where
  "offline =
     constantFetch (Inl (Foreign ''Failed to fetch'')) (Inl (Foreign ''Failed to fetch''))
       (Inl (Foreign ''Failed to fetch'')) (Inl (Foreign ''Failed to fetch''))"

definition examplePlatform :: platform where
  "examplePlatform =
     \<lparr> now = 1700000000000,
       toISOString = exampleToISOString,
       paramsToString = exampleParamsToString,
       replaceName = exampleReplaceName,
       labelMatchersToString = (\<lambda>metricName matchers labelName. metricName),
       fetch = offline \<rparr>"

text \<open>
  A client whose error handler appends the failure it is called with to a log, so that the
  log after an operation lists the handler's calls.
\<close>

definition exampleClient :: "httpMethod \<Rightarrow> FetchFn \<Rightarrow> (failure list) client" where
  "exampleClient m f =
     constructor examplePlatform
       \<lparr> cfg_url = None,
         cfg_httpErrorHandler = Some (\<lambda>e log. log @ [e]),
         cfg_lookbackInterval = None,
         cfg_fetchFn = Some f,
         cfg_httpMethod = Some m,
         cfg_apiPrefix = None \<rparr>"

text \<open>
  The client the editor builds: only \<open>url\<close> is configured, so it has no error handler, posts,
  and uses the platform's \<open>fetch\<close> (here offline).
\<close>

definition editorClient :: "(failure list) client" where
  "editorClient =
     constructor examplePlatform
       \<lparr> cfg_url = Some '''',
         cfg_httpErrorHandler = None,
         cfg_lookbackInterval = None,
         cfg_fetchFn = None,
         cfg_httpMethod = None,
         cfg_apiPrefix = None \<rparr>"

text \<open>Transports that answer every request for a string list, or for series, with one response.\<close>

definition respond :: "bool \<Rightarrow> int \<Rightarrow> string \<Rightarrow> 'a APIResponse \<Rightarrow> 'a Response" where
  "respond isOk code reason envelope =
     \<lparr> ok = isOk, http_status = code, statusText = reason, json = Inr envelope \<rparr>"

definition errorEnvelope :: "string option \<Rightarrow> 'a APIResponse" where
  "errorEnvelope message = \<lparr> status = StatusError, data = None, error = message, warnings = None \<rparr>"

definition successEnvelope :: "'a option \<Rightarrow> 'a APIResponse" where
  "successEnvelope payload =
     \<lparr> status = StatusSuccess, data = payload, error = None, warnings = None \<rparr>"

definition serveStrings :: "string list Response \<Rightarrow> FetchFn" where
  "serveStrings r = offline\<lparr> asStrings := (\<lambda>input init. Inr r) \<rparr>"

definition serveSeries :: "SeriesRecord list Response \<Rightarrow> FetchFn" where
  "serveSeries r = offline\<lparr> asSeries := (\<lambda>input init. Inr r) \<rparr>"

definition exampleSeries :: "SeriesRecord list" where
  "exampleSeries =
     [[(''__name__'', ''up''), (''job'', ''thanos''), (''instance'', ''a:9090'')],
      [(''__name__'', ''up''), (''job'', ''thanos''), (''instance'', ''b:9090'')]]"

definition seriesClient :: "(failure list) client" where
  "seriesClient =
     exampleClient GET (serveSeries (respond True 200 ''OK'' (successEnvelope (Some exampleSeries))))"

definition noInit :: RequestInit where
  "noInit = \<lparr> requestMethod = None, body = None, headers = [] \<rparr>"

text \<open>
  A base strategy that returns \<open>res\<close> and leaves the store alone, wrapped with a history of
  two queries; a store whose one live object, at reference 0, starts at \<open>start\<close>.
\<close>

definition exampleResult :: "int \<Rightarrow> CompletionResult" where
  "exampleResult start =
     \<lparr> fromPos = start, toPos = None,
       options = [\<lparr> label = ''up'', detail = Some ''metric'', applyText = None, info = None \<rparr>],
       validFor = None \<rparr>"

definition exampleStore :: "int \<Rightarrow> store" where
  "exampleStore start = \<lparr> deref = (\<lambda>r. exampleResult start), nextRef = 1 \<rparr>"

definition exampleStrategy :: "ref option \<Rightarrow> unit HistoryCompleteStrategy" where
  "exampleStrategy res =
     \<lparr> complete = (\<lambda>context h. Inr (res, h)), queryHistory = [''up'', ''rate(x[5m])''] \<rparr>"

definition exampleContext :: "unit CompletionContext" where
  "exampleContext = \<lparr> state = (), pos = 2 \<rparr>"

section \<open>Auxiliary facts\<close>

lemma thenP_simps: "thenP (Inl e) f = Inl e" "thenP (Inr v) f = f v"
  by (simp_all add: thenP_def)

lemma catchError_simps:
  "catchError c dflt (Inr v) w = (w, Inr v)"
  "catchError c dflt (Inl e) w =
     ((case errorHandler c of Some h \<Rightarrow> h e w | None \<Rightarrow> w), Inr dflt)"
  by (simp_all add: catchError_def)

text \<open>
  The ways \<open>fetchAPI\<close> fails before it reaches the envelope: the transport rejects, or
  \<open>res.json()\<close> rejects on a response whose status was accepted.
\<close>

lemma fetchAPI_transport_rejects:
  "inst (fetchFn c) (url c @ resource) init = Inl e \<Longrightarrow> fetchAPI inst c resource init = Inl e"
  by (simp add: fetchAPI_def thenP_simps)

lemma fetchAPI_json_rejects:
  "inst (fetchFn c) (url c @ resource) init = Inr res \<Longrightarrow> checkStatus res = Inr res
     \<Longrightarrow> json res = Inl e \<Longrightarrow> fetchAPI inst c resource init = Inl e"
  by (simp add: fetchAPI_def thenP_simps)

lemma exampleClient_fields:
  "httpMethod (exampleClient m f) = m"
  "fetchFn (exampleClient m f) = f"
  "url (exampleClient m f) = ''''"
  "apiPrefix (exampleClient m f) = ''/api/v1''"
  "requestHeaders (exampleClient m f) = []"
  "lookbackInterval (exampleClient m f) = 43200000"
  "errorHandler (exampleClient m f) = Some (\<lambda>e log. log @ [e])"
  by (simp_all add: exampleClient_def constructor_def)

lemma editorClient_fields:
  "errorHandler editorClient = None"
  "fetchFn editorClient = offline"
  "httpMethod editorClient = POST"
  by (simp_all add: editorClient_def constructor_def examplePlatform_def)

lemma editorClient_fetchAPI:
  "fetchAPI asStrings editorClient resource init = Inl (Foreign ''Failed to fetch'')"
  "fetchAPI asSeries editorClient resource init = Inl (Foreign ''Failed to fetch'')"
  "fetchAPI asMetadata editorClient resource init = Inl (Foreign ''Failed to fetch'')"
  "fetchAPI asFlags editorClient resource init = Inl (Foreign ''Failed to fetch'')"
  by (simp_all add: fetchAPI_def editorClient_fields offline_def constantFetch_def thenP_simps)

lemma offline_fetchAPI:
  "fetchAPI asStrings (exampleClient m offline) resource init = Inl (Foreign ''Failed to fetch'')"
  "fetchAPI asSeries (exampleClient m offline) resource init = Inl (Foreign ''Failed to fetch'')"
  "fetchAPI asMetadata (exampleClient m offline) resource init = Inl (Foreign ''Failed to fetch'')"
  "fetchAPI asFlags (exampleClient m offline) resource init = Inl (Foreign ''Failed to fetch'')"
  by (simp_all add: fetchAPI_def exampleClient_fields offline_def constantFetch_def thenP_simps)

lemma serveStrings_fetch:
  "asStrings (fetchFn (exampleClient m (serveStrings r))) input init = Inr r"
  by (simp add: exampleClient_fields serveStrings_def)

lemma seriesClient_series:
  "series examplePlatform seriesClient metricName matchers labelName w = (w, Inr exampleSeries)"
  by (simp add: series_def seriesClient_def fetchAPI_def exampleClient_fields serveSeries_def
      thenP_simps checkStatus_def respond_def unwrapEnvelope_def successEnvelope_def
      catchError_simps split: prod.splits)

text \<open>The two loops of \<open>labelNames\<close> collect the keys other than the reserved one, once each.\<close>

lemma set_namesOfEntries:
  "set (namesOfEntries entries acc) = set acc \<union> (fst ` set entries - {''__name__''})"
  by (induction entries acc rule: namesOfEntries.induct) (auto simp: set_add_def)

lemma distinct_namesOfEntries:
  "distinct acc \<Longrightarrow> distinct (namesOfEntries entries acc)"
  by (induction entries acc rule: namesOfEntries.induct) (auto simp: set_add_def)

lemma set_namesOfSeries:
  "set (namesOfSeries records acc) =
     set acc \<union> ((\<Union>r \<in> set records. fst ` set r) - {''__name__''})"
  by (induction records arbitrary: acc) (auto simp: set_namesOfEntries)

lemma distinct_namesOfSeries:
  "distinct acc \<Longrightarrow> distinct (namesOfSeries records acc)"
  by (induction records arbitrary: acc) (auto simp: distinct_namesOfEntries)

text \<open>Asked for the reserved key, the loops of \<open>labelValues\<close> add nothing.\<close>

lemma valuesOfEntries_reserved:
  "valuesOfEntries ''__name__'' entries acc = acc"
  by (induction entries arbitrary: acc) auto

lemma valuesOfSeries_reserved:
  "valuesOfSeries ''__name__'' records acc = acc"
  by (induction records arbitrary: acc) (auto simp: valuesOfEntries_reserved)

text \<open>\<open>series\<close> always resolves.\<close>

lemma series_resolves:
  "\<exists>w' records. series P c metricName matchers labelName w = (w', Inr records)"
  by (cases "fetchAPI asSeries c (fst (seriesRequest P c metricName matchers labelName))
               (snd (seriesRequest P c metricName matchers labelName))")
     (auto simp: series_def catchError_simps split: prod.splits)

text \<open>A truncated label has 79 characters, so it differs from the entry it was cut from.\<close>

lemma truncated_differs: "\<not> length q < 80 \<Longrightarrow> take 76 q @ ''...'' \<noteq> q"
proof
  assume long: "\<not> length q < 80" and same: "take 76 q @ ''...'' = q"
  have "length (take 76 q @ ''...'') = 79" using long by simp
  with long same show False by simp
qed

section \<open>The metadata client: failures\<close>

text \<open>
  Claim C1. Whenever \<open>fetchAPI\<close> fails with \<open>e\<close> inside a public operation (the transport
  rejected, the status was not tolerated, the body did not parse, the envelope reported an
  error or carried no data), the operation's promise does not reject: it resolves to the
  empty list or the empty mapping. The world afterwards is \<open>h e w\<close> when a handler \<open>h\<close> is
  configured (the handler ran once, on \<open>e\<close>) and \<open>w\<close>, untouched, when none is. This
  holds for every client, for \<open>labelNames\<close> and \<open>labelValues\<close> on both of their paths, and
  for \<open>series\<close>, \<open>metricMetadata\<close>, \<open>metricNames\<close> and \<open>flags\<close>. A configured handler is
  taken to return normally.
\<close>

theorem operations_degrade_to_empty:
  "((metricName = None \<or> metricName = Some '''')
        \<and> (case labelNamesRequest P c of (resource, init) \<Rightarrow> fetchAPI asStrings c resource init)
            = Inl e
      \<longrightarrow> labelNames P c metricName w
            = ((case errorHandler c of Some h \<Rightarrow> h e w | None \<Rightarrow> w), Inr []))
   \<and> (name \<noteq> ''''
        \<and> (case seriesRequest P c name None None of
              (resource, init) \<Rightarrow> fetchAPI asSeries c resource init) = Inl e
      \<longrightarrow> labelNames P c (Some name) w
            = ((case errorHandler c of Some h \<Rightarrow> h e w | None \<Rightarrow> w), Inr []))
   \<and> ((metricName = None \<or> metricName = Some '''')
        \<and> (case labelValuesRequest P c labelName of
              (resource, init) \<Rightarrow> fetchAPI asStrings c resource init) = Inl e
      \<longrightarrow> labelValues P c labelName metricName matchers w
            = ((case errorHandler c of Some h \<Rightarrow> h e w | None \<Rightarrow> w), Inr []))
   \<and> (name \<noteq> ''''
        \<and> (case seriesRequest P c name matchers (Some labelName) of
              (resource, init) \<Rightarrow> fetchAPI asSeries c resource init) = Inl e
      \<longrightarrow> labelValues P c labelName (Some name) matchers w
            = ((case errorHandler c of Some h \<Rightarrow> h e w | None \<Rightarrow> w), Inr []))
   \<and> ((case seriesRequest P c name matchers scope of
          (resource, init) \<Rightarrow> fetchAPI asSeries c resource init) = Inl e
      \<longrightarrow> series P c name matchers scope w
            = ((case errorHandler c of Some h \<Rightarrow> h e w | None \<Rightarrow> w), Inr []))
   \<and> (fetchAPI asMetadata c (metricMetadataEndpoint c)
          \<lparr> requestMethod = None, body = None, headers = requestHeaders c \<rparr> = Inl e
      \<longrightarrow> metricMetadata c w
            = ((case errorHandler c of Some h \<Rightarrow> h e w | None \<Rightarrow> w), Inr []))
   \<and> ((case labelValuesRequest P c ''__name__'' of
          (resource, init) \<Rightarrow> fetchAPI asStrings c resource init) = Inl e
      \<longrightarrow> metricNames P c w
            = ((case errorHandler c of Some h \<Rightarrow> h e w | None \<Rightarrow> w), Inr []))
   \<and> (fetchAPI asFlags c (flagsEndpoint c)
          \<lparr> requestMethod = None, body = None, headers = requestHeaders c \<rparr> = Inl e
      \<longrightarrow> flags c w
            = ((case errorHandler c of Some h \<Rightarrow> h e w | None \<Rightarrow> w), Inr []))"
proof -
  let ?after = "case errorHandler c of Some h \<Rightarrow> h e w | None \<Rightarrow> w"
  have names_direct:
    "labelNames P c metricName w = (?after, Inr [])"
    if "metricName = None \<or> metricName = Some ''''"
      and "(case labelNamesRequest P c of
              (resource, init) \<Rightarrow> fetchAPI asStrings c resource init) = Inl e"
    using that
    by (auto simp: labelNames_def catchError_simps split: prod.splits)
  have series_fails:
    "series P c name ms scope' w = (?after, Inr [])"
    if "(case seriesRequest P c name ms scope' of
           (resource, init) \<Rightarrow> fetchAPI asSeries c resource init) = Inl e"
    for ms scope'
    using that
    by (auto simp: series_def catchError_simps split: prod.splits)
  have names_series:
    "labelNames P c (Some name) w = (?after, Inr [])"
    if "name \<noteq> ''''"
      and "(case seriesRequest P c name None None of
              (resource, init) \<Rightarrow> fetchAPI asSeries c resource init) = Inl e"
    using that series_fails [of None None]
    by (simp add: labelNames_def thenP_simps)
  have values_direct:
    "labelValues P c label' mn ms w = (?after, Inr [])"
    if "mn = None \<or> mn = Some ''''"
      and "(case labelValuesRequest P c label' of
              (resource, init) \<Rightarrow> fetchAPI asStrings c resource init) = Inl e"
    for label' mn ms
    using that
    by (auto simp: labelValues_def catchError_simps split: prod.splits)
  have values_series:
    "labelValues P c labelName (Some name) matchers w = (?after, Inr [])"
    if "name \<noteq> ''''"
      and "(case seriesRequest P c name matchers (Some labelName) of
              (resource, init) \<Rightarrow> fetchAPI asSeries c resource init) = Inl e"
    using that series_fails [of matchers "Some labelName"]
    by (simp add: labelValues_def thenP_simps)
  have metadata:
    "metricMetadata c w = (?after, Inr [])"
    if "fetchAPI asMetadata c (metricMetadataEndpoint c)
          \<lparr> requestMethod = None, body = None, headers = requestHeaders c \<rparr> = Inl e"
    using that by (simp add: metricMetadata_def catchError_simps)
  have names:
    "metricNames P c w = (?after, Inr [])"
    if "(case labelValuesRequest P c ''__name__'' of
           (resource, init) \<Rightarrow> fetchAPI asStrings c resource init) = Inl e"
    using that values_direct [of None "''__name__''" None]
    by (auto simp: metricNames_def)
  have flags:
    "flags c w = (?after, Inr [])"
    if "fetchAPI asFlags c (flagsEndpoint c)
          \<lparr> requestMethod = None, body = None, headers = requestHeaders c \<rparr> = Inl e"
    using that by (simp add: flags_def catchError_simps)
  from names_direct names_series values_direct [of metricName labelName matchers] values_series
    series_fails [of matchers scope] metadata names flags
  show ?thesis by blast
qed

text \<open>
  With the transport offline every operation resolves to its empty default. On a client
  whose handler logs its argument, the log afterwards has exactly one entry; so it has when
  the server answers 400 with the envelope \<open>{status: "error", error: "boom"}\<close>. On the
  client the editor builds, which has no handler, the log stays empty.
\<close>

theorem operations_degrade_to_empty_witness:
  "labelNames examplePlatform (exampleClient GET offline) None []
       = ([Foreign ''Failed to fetch''], Inr [])
   \<and> labelNames examplePlatform (exampleClient GET offline) (Some ''up'') []
       = ([Foreign ''Failed to fetch''], Inr [])
   \<and> labelValues examplePlatform (exampleClient GET offline) ''job'' None None []
       = ([Foreign ''Failed to fetch''], Inr [])
   \<and> labelValues examplePlatform (exampleClient GET offline) ''job'' (Some ''up'') None []
       = ([Foreign ''Failed to fetch''], Inr [])
   \<and> series examplePlatform (exampleClient GET offline) ''up'' None None []
       = ([Foreign ''Failed to fetch''], Inr [])
   \<and> metricMetadata (exampleClient GET offline) [] = ([Foreign ''Failed to fetch''], Inr [])
   \<and> metricNames examplePlatform (exampleClient GET offline) []
       = ([Foreign ''Failed to fetch''], Inr [])
   \<and> flags (exampleClient GET offline) [] = ([Foreign ''Failed to fetch''], Inr [])
   \<and> labelNames examplePlatform
       (exampleClient GET (serveStrings (respond False 400 ''Bad Request''
          (errorEnvelope (Some ''boom''))))) None []
       = ([Error ''boom''], Inr [])
   \<and> errorHandler editorClient = None
   \<and> labelNames examplePlatform editorClient None [] = ([], Inr [])
   \<and> labelNames examplePlatform editorClient (Some ''up'') [] = ([], Inr [])
   \<and> labelValues examplePlatform editorClient ''job'' None None [] = ([], Inr [])
   \<and> labelValues examplePlatform editorClient ''job'' (Some ''up'') None [] = ([], Inr [])
   \<and> series examplePlatform editorClient ''up'' None None [] = ([], Inr [])
   \<and> metricMetadata editorClient [] = ([], Inr [])
   \<and> metricNames examplePlatform editorClient [] = ([], Inr [])
   \<and> flags editorClient [] = ([], Inr [])"
proof -
  let ?boom = "exampleClient GET (serveStrings (respond False 400 ''Bad Request''
                 (errorEnvelope (Some ''boom''))))"
  have handler: "errorHandler (exampleClient GET offline) = Some (\<lambda>e log. log @ [e])"
    and handler': "errorHandler ?boom = Some (\<lambda>e log. log @ [e])"
    and none: "errorHandler editorClient = None"
    by (simp_all add: exampleClient_fields editorClient_fields)
  have up: "''up'' \<noteq> ''''" by simp
  have boom: "fetchAPI asStrings ?boom resource init = Inl (Error ''boom'')" for resource init
    by (simp add: fetchAPI_def serveStrings_fetch thenP_simps checkStatus_def respond_def
        badRequest_def unwrapEnvelope_def errorEnvelope_def)
  from operations_degrade_to_empty [where metricName = None and P = examplePlatform
        and c = "exampleClient GET offline" and e = "Foreign ''Failed to fetch''" and w = "[]"
        and name = "''up''" and labelName = "''job''" and matchers = None and scope = None]
    operations_degrade_to_empty [where metricName = None and P = examplePlatform
        and c = ?boom and e = "Error ''boom''" and w = "[]"]
    operations_degrade_to_empty [where metricName = None and P = examplePlatform
        and c = editorClient and e = "Foreign ''Failed to fetch''" and w = "[]"
        and name = "''up''" and labelName = "''job''" and matchers = None and scope = None]
  show ?thesis
    using handler handler' none up
    by (simp add: offline_fetchAPI editorClient_fetchAPI boom split: prod.splits)
qed

text \<open>
  Claim C2. Once the body of a response has been parsed as the envelope \<open>apiRes\<close>:
  with status \<open>error\<close> the call fails with the envelope's error string, or with the fixed
  text \<open>missing "error" field in response JSON\<close> when the envelope has none; with status
  \<open>success\<close> and no data it fails with the fixed text
  \<open>missing "data" field in response JSON\<close>; otherwise it returns the data.
\<close>

theorem fetchAPI_envelope:
  assumes parsed:
    "thenP (thenP (inst (fetchFn c) (url c @ resource) init) checkStatus) json = Inr apiRes"
  shows \<open>(status apiRes = StatusError \<and> error apiRes = Some m \<longrightarrow>
            fetchAPI inst c resource init = Inl (Error m))
       \<and> (status apiRes = StatusError \<and> error apiRes = None \<longrightarrow>
            fetchAPI inst c resource init
              = Inl (Error ''missing "error" field in response JSON''))
       \<and> (status apiRes = StatusSuccess \<and> data apiRes = None \<longrightarrow>
            fetchAPI inst c resource init
              = Inl (Error ''missing "data" field in response JSON''))
       \<and> (status apiRes = StatusSuccess \<and> data apiRes = Some d \<longrightarrow>
            fetchAPI inst c resource init = Inr d)\<close>
  using parsed
  by (simp add: fetchAPI_def thenP_simps unwrapEnvelope_def missingErrorField_def
      missingDataField_def)

theorem fetchAPI_envelope_witness:
  \<open>fetchAPI asStrings
      (exampleClient GET (serveStrings (respond False 400 ''Bad Request''
         (errorEnvelope (Some ''boom'')))))
      ''/api/v1/labels'' noInit = Inl (Error ''boom'')
   \<and> fetchAPI asStrings
      (exampleClient GET (serveStrings (respond False 400 ''Bad Request'' (errorEnvelope None))))
      ''/api/v1/labels'' noInit = Inl (Error ''missing "error" field in response JSON'')
   \<and> fetchAPI asStrings
      (exampleClient GET (serveStrings (respond True 200 ''OK'' (successEnvelope None))))
      ''/api/v1/labels'' noInit = Inl (Error ''missing "data" field in response JSON'')
   \<and> fetchAPI asStrings
      (exampleClient GET (serveStrings (respond True 200 ''OK''
         (successEnvelope (Some [''job'', ''instance''])))))
      ''/api/v1/labels'' noInit = Inr [''job'', ''instance'']\<close>
proof -
  let ?r1 = "respond False 400 ''Bad Request'' (errorEnvelope (Some ''boom''))
               :: string list Response"
  let ?r2 = "respond False 400 ''Bad Request'' (errorEnvelope None) :: string list Response"
  let ?r3 = "respond True 200 ''OK'' (successEnvelope None) :: string list Response"
  let ?r4 = "respond True 200 ''OK'' (successEnvelope (Some [''job'', ''instance'']))"
  have parsed:
    "thenP (thenP (asStrings (fetchFn (exampleClient GET (serveStrings (respond isOk code reason env))))
        (url (exampleClient GET (serveStrings (respond isOk code reason env))) @ ''/api/v1/labels'')
        noInit) checkStatus) json = Inr env"
    if "isOk \<or> code = 400" for isOk code reason and env :: "string list APIResponse"
    using that
    by (auto simp: serveStrings_fetch thenP_simps checkStatus_def respond_def badRequest_def)
  have p1: "thenP (thenP (asStrings (fetchFn (exampleClient GET (serveStrings ?r1)))
        (url (exampleClient GET (serveStrings ?r1)) @ ''/api/v1/labels'') noInit) checkStatus) json
      = Inr (errorEnvelope (Some ''boom''))"
    by (rule parsed) simp
  have p2: "thenP (thenP (asStrings (fetchFn (exampleClient GET (serveStrings ?r2)))
        (url (exampleClient GET (serveStrings ?r2)) @ ''/api/v1/labels'') noInit) checkStatus) json
      = Inr (errorEnvelope None)"
    by (rule parsed) simp
  have p3: "thenP (thenP (asStrings (fetchFn (exampleClient GET (serveStrings ?r3)))
        (url (exampleClient GET (serveStrings ?r3)) @ ''/api/v1/labels'') noInit) checkStatus) json
      = Inr (successEnvelope None)"
    by (rule parsed) simp
  have p4: "thenP (thenP (asStrings (fetchFn (exampleClient GET (serveStrings ?r4)))
        (url (exampleClient GET (serveStrings ?r4)) @ ''/api/v1/labels'') noInit) checkStatus) json
      = Inr (successEnvelope (Some [''job'', ''instance'']))"
    by (rule parsed) simp
  from fetchAPI_envelope [where inst = asStrings and resource = "''/api/v1/labels''"
        and init = noInit and m = "''boom''", OF p1]
    fetchAPI_envelope [where inst = asStrings and resource = "''/api/v1/labels''"
        and init = noInit, OF p2]
    fetchAPI_envelope [where inst = asStrings and resource = "''/api/v1/labels''"
        and init = noInit, OF p3]
    fetchAPI_envelope [where inst = asStrings and resource = "''/api/v1/labels''"
        and init = noInit and d = "[''job'', ''instance'']", OF p4]
  show ?thesis
    by (simp add: errorEnvelope_def successEnvelope_def)
qed

text \<open>
  Claim C3. For a response the transport delivered: if it is not ok and its status code is
  none of 400, 422 and 503, the call fails with an \<open>Error\<close> carrying the response's status
  text; if its status code is one of the three, the call goes on to parse the body and
  unwrap the envelope, whether the response is ok or not.
\<close>

theorem fetchAPI_status:
  assumes received: "inst (fetchFn c) (url c @ resource) init = Inr res"
  shows "(\<not> ok res \<and> http_status res \<notin> {400, 422, 503} \<longrightarrow>
            fetchAPI inst c resource init = Inl (Error (statusText res)))
       \<and> (http_status res \<in> {400, 422, 503} \<longrightarrow>
            fetchAPI inst c resource init = thenP (json res) unwrapEnvelope)"
  using received
  by (simp add: fetchAPI_def thenP_simps checkStatus_def badRequest_def unprocessableEntity_def
      serviceUnavailable_def)

theorem fetchAPI_status_witness:
  "fetchAPI asStrings
      (exampleClient GET (serveStrings (respond False 500 ''Internal Server Error''
         (errorEnvelope (Some ''boom'')))))
      ''/api/v1/labels'' noInit = Inl (Error ''Internal Server Error'')
   \<and> fetchAPI asStrings
      (exampleClient GET (serveStrings (respond False 503 ''Service Unavailable''
         (errorEnvelope (Some ''boom'')))))
      ''/api/v1/labels'' noInit = Inl (Error ''boom'')"
proof -
  let ?r1 = "respond False 500 ''Internal Server Error'' (errorEnvelope (Some ''boom''))
               :: string list Response"
  let ?r2 = "respond False 503 ''Service Unavailable'' (errorEnvelope (Some ''boom''))
               :: string list Response"
  have received1:
    "asStrings (fetchFn (exampleClient GET (serveStrings ?r1)))
       (url (exampleClient GET (serveStrings ?r1)) @ ''/api/v1/labels'') noInit = Inr ?r1"
    by (simp add: serveStrings_fetch)
  have received2:
    "asStrings (fetchFn (exampleClient GET (serveStrings ?r2)))
       (url (exampleClient GET (serveStrings ?r2)) @ ''/api/v1/labels'') noInit = Inr ?r2"
    by (simp add: serveStrings_fetch)
  from fetchAPI_status [where inst = asStrings and resource = "''/api/v1/labels''"
        and init = noInit, OF received1]
    fetchAPI_status [where inst = asStrings and resource = "''/api/v1/labels''"
        and init = noInit, OF received2]
  show ?thesis
    by (simp add: respond_def errorEnvelope_def unwrapEnvelope_def thenP_simps)
qed

section \<open>The metadata client: requests\<close>

text \<open>
  Claim C4, amended. For the direct \<open>labelNames\<close> query and for \<open>series\<close>: with \<open>GET\<close>
  configured the parameters are serialised into the query string and no body is sent; with
  \<open>POST\<close> the parameters are the request body and the resource is the bare endpoint. The
  direct \<open>labelValues\<close> query does not consult the configured method: it always serialises
  its parameters into the query string, names no method and sends no body.
\<close>

theorem request_parameters:
  "(httpMethod c = GET \<longrightarrow>
      labelNamesRequest P c =
        (labelsEndpoint c @ ''?'' @ paramsToString P (window P c),
         \<lparr> requestMethod = Some GET, body = None, headers = requestHeaders c \<rparr>)
      \<and> seriesRequest P c metricName matchers labelName =
        (seriesEndpoint c @ ''?'' @ paramsToString P
           (window P c @ [(''match[]'', labelMatchersToString P metricName matchers labelName)]),
         \<lparr> requestMethod = Some GET, body = None, headers = requestHeaders c \<rparr>))
   \<and> (httpMethod c = POST \<longrightarrow>
      labelNamesRequest P c =
        (labelsEndpoint c,
         \<lparr> requestMethod = Some POST, body = Some (window P c), headers = requestHeaders c \<rparr>)
      \<and> seriesRequest P c metricName matchers labelName =
        (seriesEndpoint c,
         \<lparr> requestMethod = Some POST,
           body = Some (window P c @
                    [(''match[]'', labelMatchersToString P metricName matchers labelName)]),
           headers = requestHeaders c \<rparr>))
   \<and> labelValuesRequest P c name =
        (replaceName P (labelValuesEndpoint c) name @ ''?'' @ paramsToString P (window P c),
         \<lparr> requestMethod = None, body = None, headers = requestHeaders c \<rparr>)"
  by (simp add: labelNamesRequest_def seriesRequest_def labelValuesRequest_def buildRequest_def)

theorem request_parameters_witness:
  "fst (labelNamesRequest examplePlatform (exampleClient GET offline))
     = ''/api/v1/labels?start=2023-11-14T10%3A13%3A20.000Z&end=2023-11-14T22%3A13%3A20.000Z''
   \<and> body (snd (labelNamesRequest examplePlatform (exampleClient GET offline))) = None
   \<and> fst (seriesRequest examplePlatform (exampleClient GET offline) ''up'' None None)
     = ''/api/v1/series?start=2023-11-14T10%3A13%3A20.000Z&end=2023-11-14T22%3A13%3A20.000Z&match%5B%5D=up''
   \<and> body (snd (seriesRequest examplePlatform (exampleClient GET offline) ''up'' None None)) = None
   \<and> fst (labelNamesRequest examplePlatform (exampleClient POST offline)) = ''/api/v1/labels''
   \<and> body (snd (labelNamesRequest examplePlatform (exampleClient POST offline)))
     = Some [(''start'', ''2023-11-14T10:13:20.000Z''), (''end'', ''2023-11-14T22:13:20.000Z'')]
   \<and> fst (seriesRequest examplePlatform (exampleClient POST offline) ''up'' None None)
     = ''/api/v1/series''
   \<and> body (snd (seriesRequest examplePlatform (exampleClient POST offline) ''up'' None None))
     = Some [(''start'', ''2023-11-14T10:13:20.000Z''), (''end'', ''2023-11-14T22:13:20.000Z''),
             (''match[]'', ''up'')]"
proof -
  let ?g = "exampleClient GET offline :: (failure list) client"
  let ?p = "exampleClient POST offline :: (failure list) client"
  have get: "httpMethod ?g = GET" and post: "httpMethod ?p = POST"
    by (simp_all add: exampleClient_fields)
  have labels_query:
    "labelsEndpoint ?g @ ''?'' @ paramsToString examplePlatform (window examplePlatform ?g)
     = ''/api/v1/labels?start=2023-11-14T10%3A13%3A20.000Z&end=2023-11-14T22%3A13%3A20.000Z''"
    by code_simp
  have series_query:
    "seriesEndpoint ?g @ ''?'' @ paramsToString examplePlatform
       (window examplePlatform ?g
        @ [(''match[]'', labelMatchersToString examplePlatform ''up'' None None)])
     = ''/api/v1/series?start=2023-11-14T10%3A13%3A20.000Z&end=2023-11-14T22%3A13%3A20.000Z&match%5B%5D=up''"
    by code_simp
  have labels_body:
    "window examplePlatform ?p
     = [(''start'', ''2023-11-14T10:13:20.000Z''), (''end'', ''2023-11-14T22:13:20.000Z'')]"
    by code_simp
  have selector: "labelMatchersToString examplePlatform ''up'' None None = ''up''"
    by (simp add: examplePlatform_def)
  have endpoints:
    "labelsEndpoint ?p = ''/api/v1/labels''" "seriesEndpoint ?p = ''/api/v1/series''"
    by (simp_all add: labelsEndpoint_def seriesEndpoint_def exampleClient_fields)
  from request_parameters [of ?g examplePlatform "''up''" None None] get
  have "labelNamesRequest examplePlatform ?g =
          (''/api/v1/labels?start=2023-11-14T10%3A13%3A20.000Z&end=2023-11-14T22%3A13%3A20.000Z'',
           \<lparr> requestMethod = Some GET, body = None, headers = requestHeaders ?g \<rparr>)"
    and "seriesRequest examplePlatform ?g ''up'' None None =
          (''/api/v1/series?start=2023-11-14T10%3A13%3A20.000Z&end=2023-11-14T22%3A13%3A20.000Z&match%5B%5D=up'',
           \<lparr> requestMethod = Some GET, body = None, headers = requestHeaders ?g \<rparr>)"
    unfolding labels_query series_query by blast+
  moreover
  from request_parameters [of ?p examplePlatform "''up''" None None] post
  have "labelNamesRequest examplePlatform ?p =
          (''/api/v1/labels'',
           \<lparr> requestMethod = Some POST,
             body = Some [(''start'', ''2023-11-14T10:13:20.000Z''),
                          (''end'', ''2023-11-14T22:13:20.000Z'')],
             headers = requestHeaders ?p \<rparr>)"
    and "seriesRequest examplePlatform ?p ''up'' None None =
          (''/api/v1/series'',
           \<lparr> requestMethod = Some POST,
             body = Some [(''start'', ''2023-11-14T10:13:20.000Z''),
                          (''end'', ''2023-11-14T22:13:20.000Z''), (''match[]'', ''up'')],
             headers = requestHeaders ?p \<rparr>)"
    by (simp_all add: labels_body selector endpoints)
  ultimately show ?thesis by simp
qed

text \<open>
  The claim as stated fails for the direct \<open>labelValues\<close> query: a client configured with
  \<open>POST\<close> still puts \<open>start\<close> and \<open>end\<close> into the query string and sends no body.
\<close>

theorem labelValues_ignores_httpMethod:
  "httpMethod (exampleClient POST offline) = POST \<and>
   labelValuesRequest examplePlatform (exampleClient POST offline) ''job'' =
     (''/api/v1/label/job/values?start=2023-11-14T10%3A13%3A20.000Z&end=2023-11-14T22%3A13%3A20.000Z'',
      \<lparr> requestMethod = None, body = None, headers = [] \<rparr>)"
  by code_simp

section \<open>History options\<close>

text \<open>
  Claim C5, amended. A history entry of exactly 79 characters is returned with its label
  unmodified and no info. An entry of exactly 80 characters, like one of 81, is returned
  with its label equal to its first 76 characters followed by \<open>...\<close> and with info equal
  to the full entry.
\<close>

theorem history_label_boundary:
  "(length q = 79 \<longrightarrow> label (historyOption q) = q \<and> info (historyOption q) = None)
   \<and> (length q = 80 \<longrightarrow>
        label (historyOption q) = take 76 q @ ''...'' \<and> info (historyOption q) = Some q)
   \<and> (length q = 81 \<longrightarrow>
        label (historyOption q) = take 76 q @ ''...'' \<and> info (historyOption q) = Some q)"
  by (simp add: historyOption_def)

theorem history_label_boundary_witness:
  "label (historyOption (replicate 79 (CHR ''a''))) = replicate 79 (CHR ''a'')
   \<and> info (historyOption (replicate 79 (CHR ''a''))) = None
   \<and> label (historyOption (replicate 80 (CHR ''a''))) = replicate 76 (CHR ''a'') @ ''...''
   \<and> info (historyOption (replicate 80 (CHR ''a''))) = Some (replicate 80 (CHR ''a''))
   \<and> label (historyOption (replicate 81 (CHR ''a''))) = replicate 76 (CHR ''a'') @ ''...''
   \<and> info (historyOption (replicate 81 (CHR ''a''))) = Some (replicate 81 (CHR ''a''))"
  using history_label_boundary [of "replicate 79 (CHR ''a'')"]
    history_label_boundary [of "replicate 80 (CHR ''a'')"]
    history_label_boundary [of "replicate 81 (CHR ''a'')"]
  by simp

text \<open>
  The claim as stated fails at 80 characters: the label of such an entry is cut to 76
  characters and the ellipsis, and is not the entry.
\<close>

theorem history_label_80_counterexample:
  "length (replicate 80 (CHR ''a'')) = 80 \<and>
   label (historyOption (replicate 80 (CHR ''a''))) = replicate 76 (CHR ''a'') @ ''...'' \<and>
   label (historyOption (replicate 80 (CHR ''a''))) \<noteq> replicate 80 (CHR ''a'')"
  by code_simp

text \<open>
  Claim C6. The option built for a history entry \<open>q\<close> has as label \<open>q\<close> itself when \<open>q\<close> has
  fewer than 80 characters and otherwise its first 76 characters followed by \<open>...\<close>; its
  inserted text is always \<open>q\<close> in full; and its info is \<open>q\<close> exactly when the label
  was truncated (differs from \<open>q\<close>), and unset otherwise.
\<close>

theorem history_option_fields:
  "label (historyOption q) = (if length q < 80 then q else take 76 q @ ''...'')
   \<and> applyText (historyOption q) = Some q
   \<and> info (historyOption q) = (if label (historyOption q) = q then None else Some q)"
  using truncated_differs [of q] by (simp add: historyOption_def)

section \<open>Label names and values of a metric\<close>

text \<open>
  Claim C7. For a non-empty metric name, \<open>labelNames\<close> resolves to a list without
  duplicates whose members are exactly the keys, other than \<open>__name__\<close>, of the records
  that \<open>series(metricName)\<close> resolved to.
\<close>

theorem labelNames_of_metric:
  assumes "metricName \<noteq> ''''"
    and "series P c metricName None None w = (w', Inr records)"
  shows "\<exists>names. labelNames P c (Some metricName) w = (w', Inr names)
           \<and> set names = (\<Union>r \<in> set records. fst ` set r) - {''__name__''}
           \<and> distinct names"
  using assms
  by (simp add: labelNames_def thenP_simps set_namesOfSeries distinct_namesOfSeries)

theorem labelNames_of_metric_witness:
  "''up'' \<noteq> ''''
   \<and> series examplePlatform seriesClient ''up'' None None [] = ([], Inr exampleSeries)
   \<and> (\<exists>names. labelNames examplePlatform seriesClient (Some ''up'') [] = ([], Inr names)
         \<and> set names = {''job'', ''instance''} \<and> distinct names)"
proof -
  have up: "''up'' \<noteq> ''''" by simp
  have records:
    "series examplePlatform seriesClient ''up'' None None [] = ([], Inr exampleSeries)"
    by (rule seriesClient_series)
  have keys: "(\<Union>r \<in> set exampleSeries. fst ` set r) - {''__name__''} = {''job'', ''instance''}"
    by (auto simp: exampleSeries_def)
  from labelNames_of_metric [OF up records] up records show ?thesis
    by (simp only: keys simp_thms)
qed

text \<open>
  Claim C10. For a non-empty metric name and any matchers, \<open>labelValues\<close> asked for the
  label \<open>__name__\<close> resolves to the empty list, whatever records \<open>series\<close> resolved to.
\<close>

theorem labelValues_of_reserved_key:
  assumes "metricName \<noteq> ''''"
  shows "snd (labelValues P c ''__name__'' (Some metricName) matchers w) = Inr []"
proof -
  obtain w' records where
    "series P c metricName matchers (Some ''__name__'') w = (w', Inr records)"
    using series_resolves [of P c metricName matchers "Some ''__name__''" w] by auto
  with assms show ?thesis
    by (simp add: labelValues_def thenP_simps valuesOfSeries_reserved)
qed

theorem labelValues_of_reserved_key_witness:
  "''up'' \<noteq> ''''
   \<and> series examplePlatform seriesClient ''up'' None (Some ''__name__'') []
       = ([], Inr exampleSeries)
   \<and> snd (labelValues examplePlatform seriesClient ''__name__'' (Some ''up'') None []) = Inr []"
proof -
  have up: "''up'' \<noteq> ''''" by simp
  from labelValues_of_reserved_key [OF up, of examplePlatform seriesClient None "[]"]
  show ?thesis
    by (simp add: seriesClient_series)
qed

section \<open>Merging history into the completions\<close>

text \<open>
  Claim C8. When the resolved start offset (the \<open>from\<close> of the base result if there is one,
  otherwise the start of the syntax node at the cursor) is not 0, \<open>promQL\<close> resolves to what
  the base strategy resolved to: the same reference (or \<open>null\<close>), in the store the base
  strategy left, with no object created or changed.
\<close>

theorem promQL_nonzero_start:
  assumes "complete this context h0 = Inr (res, h)"
    and "(case res of Some r \<Rightarrow> fromPos (deref h r)
          | None \<Rightarrow> resolveFrom (state context) (pos context)) \<noteq> 0"
  shows "promQL resolveFrom this context h0 = Inr (res, h)"
  using assms by (simp add: promQL_def thenP_simps Let_def)

theorem promQL_nonzero_start_witness:
  "promQL (\<lambda>s p. 0) (exampleStrategy (Some 0)) exampleContext (exampleStore 1)
     = Inr (Some 0, exampleStore 1)
   \<and> promQL (\<lambda>s p. 1) (exampleStrategy None) exampleContext (exampleStore 0)
     = Inr (None, exampleStore 0)"
proof -
  have base: "complete (exampleStrategy res) exampleContext h = Inr (res, h)" for res h
    by (simp add: exampleStrategy_def)
  have inner:
    "(case Some 0 of Some r \<Rightarrow> fromPos (deref (exampleStore 1) r)
      | None \<Rightarrow> (\<lambda>s p. 0) (state exampleContext) (pos exampleContext)) \<noteq> 0"
    by (simp add: exampleStore_def exampleResult_def)
  have node:
    "(case None of Some r \<Rightarrow> fromPos (deref (exampleStore 0) r)
      | None \<Rightarrow> (\<lambda>s p. 1) (state exampleContext) (pos exampleContext)) \<noteq> (0::int)"
    by simp
  from promQL_nonzero_start [OF base inner] promQL_nonzero_start [OF base node]
  show ?thesis by simp
qed

text \<open>
  Claim C9. When the base strategy resolves to a live result \<open>r\<close> whose \<open>from\<close> is 0,
  \<open>promQL\<close> resolves to a new result whose options are the history options, in the order
  of the history, followed by the options of \<open>r\<close> in their order; its range runs from 0 to
  the cursor and its validity pattern is the history pattern, whatever \<open>to\<close> and \<open>validFor\<close>
  the result \<open>r\<close> has. The result \<open>r\<close> itself is left as it was.
\<close>

theorem promQL_merges_history:
  assumes "complete this context h0 = Inr (Some r, h)"
    and "fromPos (deref h r) = 0"
    and "live h r"
  shows "\<exists>r' h'. promQL resolveFrom this context h0 = Inr (Some r', h')
           \<and> options (deref h' r') = map historyOption (queryHistory this) @ options (deref h r)
           \<and> fromPos (deref h' r') = 0
           \<and> toPos (deref h' r') = Some (pos context)
           \<and> validFor (deref h' r') = Some historyValidFor
           \<and> r' \<noteq> r \<and> deref h' r = deref h r"
  using assms by (simp add: promQL_def thenP_simps Let_def alloc_def live_def)

theorem promQL_merges_history_witness:
  "live (exampleStore 0) 0
   \<and> (\<exists>r' h'. promQL (\<lambda>s p. 0) (exampleStrategy (Some 0)) exampleContext (exampleStore 0)
         = Inr (Some r', h')
       \<and> map label (options (deref h' r')) = [''up'', ''rate(x[5m])'', ''up'']
       \<and> map detail (options (deref h' r')) = [Some ''past query'', Some ''past query'', Some ''metric'']
       \<and> fromPos (deref h' r') = 0
       \<and> toPos (deref h' r') = Some 2
       \<and> validFor (deref h' r') = Some historyValidFor)"
proof -
  have base:
    "complete (exampleStrategy (Some 0)) exampleContext (exampleStore 0)
       = Inr (Some 0, exampleStore 0)"
    by (simp add: exampleStrategy_def)
  have start: "fromPos (deref (exampleStore 0) 0) = 0"
    by (simp add: exampleStore_def exampleResult_def)
  have alive: "live (exampleStore 0) 0"
    by (simp add: live_def exampleStore_def)
  from promQL_merges_history [OF base start alive, of "\<lambda>s p. 0"]
  obtain r' h' where
    result: "promQL (\<lambda>s p. 0) (exampleStrategy (Some 0)) exampleContext (exampleStore 0)
               = Inr (Some r', h')"
    and opts: "options (deref h' r')
               = map historyOption (queryHistory (exampleStrategy (Some 0)))
                 @ options (deref (exampleStore 0) 0)"
    and range: "fromPos (deref h' r') = 0" "toPos (deref h' r') = Some (pos exampleContext)"
    and pattern: "validFor (deref h' r') = Some historyValidFor"
    by blast
  have labels: "map label (options (deref h' r')) = [''up'', ''rate(x[5m])'', ''up'']"
    and details: "map detail (options (deref h' r'))
                  = [Some ''past query'', Some ''past query'', Some ''metric'']"
    by (simp_all add: opts exampleStrategy_def exampleStore_def exampleResult_def
        historyOption_def)
  from result labels details range pattern alive show ?thesis
    by (auto simp: exampleContext_def)
qed

end
